theory Spec2Isabelle
  imports Main "HOL-Library.AList"
begin

section \<open>The feature definitions module of the fitness feature repository\<close>

text \<open>
  The repository consists of one Python module,
  \<^verbatim>\<open>features/fitness_features/feature_repo/feature_definitions.py\<close>.
  Its executable content is three import statements and two assignments; everything
  else is comment. The module is embedded as a sequence of statements, each a
  transformer of an interpreter state: the module's global namespace together with
  the process-wide registry of the feature store.
\<close>

subsection \<open>Objects of the feature store library\<close>

text \<open>
  Modelled from the spec: the classes \<^verbatim>\<open>Entity\<close>, \<^verbatim>\<open>FileSource\<close>,
  \<^verbatim>\<open>FeatureView\<close> and \<^verbatim>\<open>Field\<close> and the types \<^verbatim>\<open>Float32\<close>,
  \<^verbatim>\<open>Float64\<close>, \<^verbatim>\<open>Int64\<close> are imported from the external library and are
  not part of the repository. Their fields follow the data model of the spec:
  an entity has a name, an ordered list of join keys and a description; a source
  descriptor has a location, a timestamp field name and an optional created-timestamp
  field; a feature view has a name, entities, a time-to-live, an ordered schema, an
  online flag, a source and tags. Field names are those of the keyword arguments
  the module uses.
\<close>

record entity =
  name :: string
  join_keys :: "string list"
  description :: string

record file_source =
  path :: string
  timestamp_field :: string
  created_timestamp_column :: "string option"

datatype dtype = Float32 | Float64 | Int64

record field =
  field_name :: string
  dtype :: dtype

record feature_view =
  view_name :: string
  entities :: "entity list"
  ttl :: int
  schema :: "field list"
  online :: bool
  source :: file_source
  tags :: "(string \<times> string) list"

text \<open>
  Modelled from the spec: the constructors of the library build the object from
  their keyword arguments and do nothing else (construction is declarative; validation
  and registration are deferred to a later, separate apply step). A keyword that the
  call leaves out is passed as \<open>None\<close>.
\<close>

definition Entity :: "string \<Rightarrow> string list \<Rightarrow> string \<Rightarrow> entity" where
  "Entity n ks d = \<lparr>name = n, join_keys = ks, description = d\<rparr>"

definition FileSource :: "string \<Rightarrow> string \<Rightarrow> string option \<Rightarrow> file_source" where
  "FileSource p t c = \<lparr>path = p, timestamp_field = t, created_timestamp_column = c\<rparr>"

subsection \<open>Interpreter state\<close>

text \<open>
  What a name of the module's namespace can be bound to: an attribute imported from
  another module (kept as the pair of module and attribute name), or an object built
  by one of the library's constructors.
\<close>

datatype pyobj =
    Imported string string
  | EntityObj entity
  | FileSourceObj file_source
  | FeatureViewObj feature_view

text \<open>
  The process-wide state that is tracked: the objects registered so far. The file
  system, the environment and the clock are not part of the model.
\<close>

record world =
  registry :: "pyobj list"

text \<open>
  The namespace is an association list in binding order, as a Python dictionary keeps
  insertion order; binding a name again replaces its value in place.
\<close>

type_synonym namespace = "(string \<times> pyobj) list"

record interp =
  globals :: namespace
  ambient :: world

subsection \<open>Statements\<close>

text \<open>
  \<^verbatim>\<open>from m import a, b, ...\<close> binds each listed name to that attribute of \<open>m\<close>.
  Modelled from the spec: the imported modules are external, so the import is taken
  to succeed and to register nothing. How the interpreter finds and runs the package,
  and the failure when it is not installed, are not modelled.
\<close>

definition import_from :: "string \<Rightarrow> string list \<Rightarrow> interp \<Rightarrow> interp" where
  "import_from m ns s =
     s\<lparr>globals := fold (\<lambda>n g. AList.update n (Imported m n) g) ns (globals s)\<rparr>"

text \<open>\<^verbatim>\<open>n = v\<close> at module level binds \<open>n\<close> in the global namespace.\<close>

definition assign :: "string \<Rightarrow> pyobj \<Rightarrow> interp \<Rightarrow> interp" where
  "assign n v s = s\<lparr>globals := AList.update n v (globals s)\<rparr>"

text \<open>Statements run one after the other, in the order of the source.\<close>

definition run :: "(interp \<Rightarrow> interp) list \<Rightarrow> interp \<Rightarrow> interp" where
  "run stmts s = fold (\<lambda>stmt t. stmt t) stmts s"

subsection \<open>The module\<close>

text \<open>
  Lines 10 to 12 are the imports, lines 20 to 24 bind \<^verbatim>\<open>record\<close>, lines 33 to 37
  bind \<^verbatim>\<open>fitness_source\<close> (the keyword \<^verbatim>\<open>created_timestamp_column\<close> appears only
  in a comment there). Lines 40 to 140 are comments: the two feature views
  \<^verbatim>\<open>heart_rate_stats\<close> and \<^verbatim>\<open>exertion_features\<close> are example text, not
  statements.
\<close>

definition record_value :: entity where
  "record_value =
     Entity ''record'' [''record_id'']
       ''Each row is one record, which is a related cluster of fitness device features''"

definition fitness_source_value :: file_source where
  "fitness_source_value =
     FileSource ''../../../data/full_data_cleaned.csv'' ''synthetic_event_timestamp'' None"

definition feature_definitions :: "interp \<Rightarrow> interp" where
  "feature_definitions =
     run [
       import_from ''datetime'' [''timedelta''],
       import_from ''feast'' [''Entity'', ''FeatureView'', ''Field'', ''FileSource''],
       import_from ''feast.types'' [''Float32'', ''Float64'', ''Int64''],
       assign ''record'' (EntityObj record_value),
       assign ''fitness_source'' (FileSourceObj fitness_source_value)
     ]"

text \<open>
  Evaluating the module: its body runs in a fresh namespace, in the process state
  \<open>w\<close> it finds.
\<close>

definition module_eval :: "world \<Rightarrow> interp" where
  "module_eval w = feature_definitions \<lparr>globals = [], ambient = w\<rparr>"

subsection \<open>Reading the namespace\<close>

text \<open>Looking a name up as a feature view, an entity or a source.\<close>

definition lookup_feature_view :: "namespace \<Rightarrow> string \<Rightarrow> feature_view option" where
  "lookup_feature_view g n =
     (case map_of g n of Some (FeatureViewObj v) \<Rightarrow> Some v | _ \<Rightarrow> None)"

text \<open>The objects of each kind bound in a namespace, with the names they are bound to.\<close>

definition feature_views_defined :: "namespace \<Rightarrow> (string \<times> feature_view) list" where
  "feature_views_defined g =
     List.map_filter
       (\<lambda>(n, v). case v of FeatureViewObj x \<Rightarrow> Some (n, x) | _ \<Rightarrow> None) g"

definition entities_defined :: "namespace \<Rightarrow> (string \<times> entity) list" where
  "entities_defined g =
     List.map_filter
       (\<lambda>(n, v). case v of EntityObj x \<Rightarrow> Some (n, x) | _ \<Rightarrow> None) g"

definition sources_defined :: "namespace \<Rightarrow> (string \<times> file_source) list" where
  "sources_defined g =
     List.map_filter
       (\<lambda>(n, v). case v of FileSourceObj x \<Rightarrow> Some (n, x) | _ \<Rightarrow> None) g"

text \<open>The bindings that are the module's own: everything that is not an import.\<close>

definition own_bindings :: "namespace \<Rightarrow> namespace" where
  "own_bindings g =
     filter (\<lambda>(n, v). case v of Imported m a \<Rightarrow> False | _ \<Rightarrow> True) g"

section \<open>Properties\<close>

subsection \<open>The namespace after evaluation\<close>

lemma globals_module_eval:
  "globals (module_eval w) =
     [(''timedelta'', Imported ''datetime'' ''timedelta''),
      (''Entity'', Imported ''feast'' ''Entity''),
      (''FeatureView'', Imported ''feast'' ''FeatureView''),
      (''Field'', Imported ''feast'' ''Field''),
      (''FileSource'', Imported ''feast'' ''FileSource''),
      (''Float32'', Imported ''feast.types'' ''Float32''),
      (''Float64'', Imported ''feast.types'' ''Float64''),
      (''Int64'', Imported ''feast.types'' ''Int64''),
      (''record'', EntityObj record_value),
      (''fitness_source'', FileSourceObj fitness_source_value)]"
  by (simp add: module_eval_def feature_definitions_def run_def import_from_def assign_def)

lemma ambient_import_from: "ambient (import_from m ns s) = ambient s"
  by (simp add: import_from_def)

lemma ambient_assign: "ambient (assign n v s) = ambient s"
  by (simp add: assign_def)

lemma ambient_module_eval: "ambient (module_eval w) = w"
  by (simp add: module_eval_def feature_definitions_def run_def
      ambient_import_from ambient_assign)

subsection \<open>Feature views\<close>

text \<open>
  Claim C1. The module defines no feature view. Whatever the name, looking it up as
  a feature view in the namespace of the evaluated module finds nothing; the list of
  feature views bound there is empty; the two names of the commented examples,
  \<^verbatim>\<open>heart_rate_stats\<close> and \<^verbatim>\<open>exertion_features\<close>, are not bound at all; and the
  module's own bindings are the entity and the source and nothing more, so it holds
  no join logic either.
\<close>

theorem no_feature_view_defined:
  "lookup_feature_view (globals (module_eval w)) n = None
   \<and> feature_views_defined (globals (module_eval w)) = []
   \<and> map_of (globals (module_eval w)) ''heart_rate_stats'' = None
   \<and> map_of (globals (module_eval w)) ''exertion_features'' = None
   \<and> own_bindings (globals (module_eval w)) =
       [(''record'', EntityObj record_value),
        (''fitness_source'', FileSourceObj fitness_source_value)]"
  by (simp add: globals_module_eval lookup_feature_view_def feature_views_defined_def
      own_bindings_def)

subsection \<open>The entity\<close>

text \<open>
  Claim C2. The module defines exactly one entity. It is bound to the name
  \<^verbatim>\<open>record\<close>, its entity name is the string "record", its join keys are the one-element
  list ["record_id"], and it carries a description.
\<close>

theorem exactly_one_entity:
  "entities_defined (globals (module_eval w)) =
     [(''record'',
       \<lparr>name = ''record'', join_keys = [''record_id''],
        description =
          ''Each row is one record, which is a related cluster of fitness device features''\<rparr>)]"
  by (simp add: globals_module_eval entities_defined_def
      record_value_def Entity_def)

subsection \<open>The source descriptor\<close>

text \<open>
  Claim C3. The module defines exactly one source descriptor, bound to the name
  \<^verbatim>\<open>fitness_source\<close>. Its path is "../../../data/full_data_cleaned.csv", its timestamp
  field is "synthetic_event_timestamp", and its created-timestamp field is not set.
\<close>

theorem exactly_one_source:
  "sources_defined (globals (module_eval w)) =
     [(''fitness_source'',
       \<lparr>path = ''../../../data/full_data_cleaned.csv'',
        timestamp_field = ''synthetic_event_timestamp'',
        created_timestamp_column = None\<rparr>)]"
  by (simp add: globals_module_eval sources_defined_def
      fitness_source_value_def FileSource_def)

subsection \<open>Evaluation registers nothing\<close>

text \<open>
  Claim C10. Evaluating the module binds the two values \<^verbatim>\<open>record\<close> and
  \<^verbatim>\<open>fitness_source\<close> and no other value of its own: the bindings of the evaluated
  namespace that are not names brought in by the import statements are exactly these
  two, in this order. The module makes no registration or apply call, so the registry
  is after evaluation what it was before, whatever it held.
\<close>

theorem no_registration_side_effect:
  "registry (ambient (module_eval w)) = registry w
   \<and> own_bindings (globals (module_eval w)) =
       [(''record'', EntityObj record_value),
        (''fitness_source'', FileSourceObj fitness_source_value)]"
  by (simp add: globals_module_eval ambient_module_eval own_bindings_def)

end
